theory Spec2Isabelle
  imports Complex_Main "HOL-Library.Word" "HOL-Library.Sublist"
begin

section \<open>Strings of the host language\<close>

text \<open>
  A string of the source language is a sequence of 16-bit code units. The literals of
  \<^verbatim>\<open>PromptBuilder.tsx\<close> are written with \<open>js\<close> for their ASCII stretches and with the
  code units themselves for the accented letters (all of them precomposed, below
  \<open>0x100\<close>) and for the line feed \<open>0x0A\<close>.
\<close>

type_synonym jschar = "16 word"
type_synonym jsstring = "jschar list"

definition js :: "string \<Rightarrow> jsstring" where
  "js cs = map (\<lambda>c. of_char c) cs"

text \<open>
  \<^verbatim>\<open>String.prototype.trim\<close> removes the code units of the grammar productions
  WhiteSpace and LineTerminator from both ends.
\<close>

definition isWhiteSpace :: "jschar \<Rightarrow> bool" where
  "isWhiteSpace c \<longleftrightarrow>
     c \<in> set [0x09, 0x0A, 0x0B, 0x0C, 0x0D, 0x20, 0xA0, 0x1680,
              0x2000, 0x2001, 0x2002, 0x2003, 0x2004, 0x2005, 0x2006, 0x2007,
              0x2008, 0x2009, 0x200A, 0x2028, 0x2029, 0x202F, 0x205F, 0x3000, 0xFEFF]"

definition trim :: "jsstring \<Rightarrow> jsstring" where
  "trim s = rev (dropWhile isWhiteSpace (rev (dropWhile isWhiteSpace s)))"

text \<open>\<^verbatim>\<open>s.split(sep)\<close> for a separator of one code unit: \<^verbatim>\<open>''.split(',')\<close> is \<^verbatim>\<open>['']\<close>.\<close>

fun split :: "jschar \<Rightarrow> jsstring \<Rightarrow> jsstring list" where
  "split sep [] = [[]]"
| "split sep (c # cs) =
     (if c = sep then [] # split sep cs
      else (case split sep cs of [] \<Rightarrow> [[c]] | p # ps \<Rightarrow> (c # p) # ps))"

text \<open>\<^verbatim>\<open>xs.join(sep)\<close> on an array of strings.\<close>

fun join :: "jsstring \<Rightarrow> jsstring list \<Rightarrow> jsstring" where
  "join sep [] = []"
| "join sep [x] = x"
| "join sep (x # y # ys) = x @ sep @ join sep (y # ys)"

text \<open>
  \<^verbatim>\<open>Math.round\<close> rounds to the nearest integer, a tie going up. The source applies it to
  \<^verbatim>\<open>(answered / baseQuestions.length) * 100\<close>, computed in binary floating point; the model
  computes the quotient exactly. With nine questions the exact values are \<open>100 * a / 9\<close>
  for \<open>0 \<le> a \<le> 9\<close>, none of them closer than \<open>1 / 18\<close> to a half-integer, while the
  floating-point result differs from the exact one by less than \<open>10\<^sup>-\<^sup>1\<^sup>3\<close>; so both
  round to the same integer.
\<close>

definition Math_round :: "rat \<Rightarrow> int" where
  "Math_round x = \<lfloor>x + 1 / 2\<rfloor>"

section \<open>Data model\<close>

datatype PromptField =
  Objective | Audience | Tone | Format | Constraints | Inputs | Context | Evaluation | Persona

datatype QuestionType = QText | QTextarea | QTags | QSelect

text \<open>
  A question of the descriptor table. The fields \<^verbatim>\<open>description\<close>, \<^verbatim>\<open>placeholder\<close> and
  \<^verbatim>\<open>options\<close> are only rendered, never read by the functions below, and are left out.
  \<^verbatim>\<open>required\<close> is optional in the source: \<open>None\<close> is the absent property.
\<close>

record Question =
  q_id :: jsstring
  q_title :: jsstring
  q_field :: PromptField
  q_type :: QuestionType
  q_required :: "bool option"

text \<open>The value of a field is \<^verbatim>\<open>string[] | string\<close>.\<close>

datatype FieldValue = Str jsstring | Tags "jsstring list"

text \<open>
  \<^verbatim>\<open>BuilderState\<close> is an object indexed by \<^verbatim>\<open>PromptField\<close>; \<open>None\<close> is a property that is
  missing (reading it gives \<^verbatim>\<open>undefined\<close>).
\<close>

type_synonym BuilderState = "PromptField \<rightharpoonup> FieldValue"

datatype Action =
  UpdateField PromptField jsstring
| UpdateTags PromptField "jsstring list"
| Reset BuilderState

definition initialState :: BuilderState where
  "initialState =
     [Objective \<mapsto> Str [], Audience \<mapsto> Str [], Tone \<mapsto> Str [], Format \<mapsto> Str [],
      Constraints \<mapsto> Tags [], Inputs \<mapsto> Tags [], Context \<mapsto> Str [],
      Evaluation \<mapsto> Str [], Persona \<mapsto> Str []]"

definition baseQuestions :: "Question list" where
  "baseQuestions =
    [\<lparr>q_id = js ''objective'', q_title = js ''Objetivo central'',
      q_field = Objective, q_type = QTextarea, q_required = Some True\<rparr>,
     \<lparr>q_id = js ''audience'',
      q_title = js ''P'' @ [0xFA] @ js ''blico-alvo e n'' @ [0xED] @ js ''vel'',
      q_field = Audience, q_type = QTextarea, q_required = Some True\<rparr>,
     \<lparr>q_id = js ''persona'', q_title = js ''Persona do assistente'',
      q_field = Persona, q_type = QTextarea, q_required = None\<rparr>,
     \<lparr>q_id = js ''tone'', q_title = js ''Tom e estilo desejados'',
      q_field = Tone, q_type = QTextarea, q_required = None\<rparr>,
     \<lparr>q_id = js ''format'', q_title = js ''Formato de sa'' @ [0xED] @ js ''da'',
      q_field = Format, q_type = QTextarea, q_required = None\<rparr>,
     \<lparr>q_id = js ''inputs'',
      q_title = js ''Informa'' @ [0xE7, 0xF5] @ js ''es de entrada'',
      q_field = Inputs, q_type = QTags, q_required = None\<rparr>,
     \<lparr>q_id = js ''constraints'',
      q_title = js ''Restri'' @ [0xE7, 0xF5] @ js ''es e regras'',
      q_field = Constraints, q_type = QTags, q_required = None\<rparr>,
     \<lparr>q_id = js ''context'', q_title = js ''Contexto adicional'',
      q_field = Context, q_type = QTextarea, q_required = None\<rparr>,
     \<lparr>q_id = js ''evaluation'',
      q_title = js ''Crit'' @ [0xE9] @ js ''rios de avalia'' @ [0xE7, 0xE3] @ js ''o'',
      q_field = Evaluation, q_type = QTextarea, q_required = None\<rparr>]"

section \<open>The primitives the functions use on a field value\<close>

text \<open>Truthiness: \<^verbatim>\<open>undefined\<close> and the empty string are falsy, every array is truthy.\<close>

fun truthy :: "FieldValue option \<Rightarrow> bool" where
  "truthy None = False"
| "truthy (Some (Str s)) = (s \<noteq> [])"
| "truthy (Some (Tags ts)) = True"

fun isArray :: "FieldValue option \<Rightarrow> bool" where
  "isArray (Some (Tags ts)) = True"
| "isArray v = False"

text \<open>The elements of a value already known to be an array.\<close>

fun items :: "FieldValue option \<Rightarrow> jsstring list" where
  "items (Some (Tags ts)) = ts"
| "items v = []"

text \<open>\<^verbatim>\<open>(value ?? '')\<close> on a value already known not to be an array.\<close>

fun orEmpty :: "FieldValue option \<Rightarrow> jsstring" where
  "orEmpty (Some (Str s)) = s"
| "orEmpty v = []"

text \<open>
  A value inside a template literal: a string is itself, an array is its elements joined
  by commas, \<^verbatim>\<open>undefined\<close> is the word.
\<close>

fun template :: "FieldValue option \<Rightarrow> jsstring" where
  "template (Some (Str s)) = s"
| "template (Some (Tags ts)) = join (js '','') ts"
| "template None = js ''undefined''"

section \<open>The reducer\<close>

text \<open>
  The \<^verbatim>\<open>default\<close> branch of the source's \<^verbatim>\<open>switch\<close> is not reachable: \<open>Action\<close> has
  the three variants only.
\<close>

fun builderReducer :: "BuilderState \<Rightarrow> Action \<Rightarrow> BuilderState" where
  "builderReducer state (UpdateField field v) = state(field \<mapsto> Str v)"
| "builderReducer state (UpdateTags field tags) = state(field \<mapsto> Tags tags)"
| "builderReducer state (Reset payload) = payload"

text \<open>
  \<^verbatim>\<open>updateTagList\<close>: the array \<^verbatim>\<open>values\<close> it computes from the raw text, and the
  dispatch of the action that carries it.
\<close>

definition updateTagList_values :: "jsstring \<Rightarrow> jsstring list" where
  "updateTagList_values payload =
     filter (\<lambda>item. item \<noteq> []) (map (\<lambda>item. trim item) (split 0x2C payload))"

definition updateTagList :: "BuilderState \<Rightarrow> PromptField \<Rightarrow> jsstring \<Rightarrow> BuilderState" where
  "updateTagList state field payload =
     builderReducer state (UpdateTags field (updateTagList_values payload))"

section \<open>Derived values\<close>

text \<open>\<^verbatim>\<open>useDynamicInsights\<close>: the two components of its result.\<close>

definition pending :: "BuilderState \<Rightarrow> jsstring list" where
  "pending state =
     map (\<lambda>question. q_title question)
       (filter (\<lambda>question.
            (let v = state (q_field question)
             in if isArray v then length (items v) = 0
                else length (trim (orEmpty v)) = 0))
          (filter (\<lambda>question. q_required question = Some True) baseQuestions))"

definition insight_format :: jsstring where
  "insight_format =
     js ''Detalhe o formato de sa'' @ [0xED]
     @ js ''da para alinhar expectativas e facilitar valida'' @ [0xE7, 0xE3] @ js ''o.''"

definition insight_constraints :: jsstring where
  "insight_constraints =
     js ''Adicione restri'' @ [0xE7, 0xF5] @ js ''es ou crit'' @ [0xE9]
     @ js ''rios de seguran'' @ [0xE7] @ js ''a para evitar respostas incorretas.''"

definition insight_evaluation :: jsstring where
  "insight_evaluation =
     js ''Defina crit'' @ [0xE9] @ js ''rios de avalia'' @ [0xE7, 0xE3]
     @ js ''o para facilitar ajustes e itera'' @ [0xE7, 0xF5] @ js ''es futuras.''"

definition insights :: "BuilderState \<Rightarrow> jsstring list" where
  "insights state =
     (let out = [];
          out = (if truthy (state Objective) \<and> state Format = Some (Str [])
                 then out @ [insight_format] else out);
          out = (if isArray (state Constraints) \<and> length (items (state Constraints)) = 0
                 then out @ [insight_constraints] else out);
          out = (if state Evaluation = Some (Str [])
                 then out @ [insight_evaluation] else out)
      in out)"

text \<open>\<^verbatim>\<open>answerCompletion\<close>.\<close>

definition answerCompletion :: "BuilderState \<Rightarrow> int" where
  "answerCompletion state =
     (let answered = length (filter (\<lambda>question.
            (let v = state (q_field question)
             in if isArray v then length (items v) > 0
                else length (trim (orEmpty v)) > 0)) baseQuestions)
      in Math_round ((of_nat answered / of_nat (length baseQuestions)) * 100))"

section \<open>The document\<close>

definition closing :: jsstring where
  "closing =
     js ''Antes de responder, valide se todas as informa'' @ [0xE7, 0xF5] @ js ''es s''
     @ [0xE3] @ js ''o suficientes. Caso falte algo, fa'' @ [0xE7]
     @ js ''a perguntas espec'' @ [0xED] @ js ''ficas para complementar o briefing.''"

text \<open>The bulleted lines of a tag list: \<^verbatim>\<open>xs.map((item) => `- ${item}`).join('\n')\<close>.\<close>

definition bullets :: "jsstring list \<Rightarrow> jsstring" where
  "bullets xs = join [0x0A] (map (\<lambda>item. js ''- '' @ item) xs)"

text \<open>\<^verbatim>\<open>buildPrompt\<close>: the array \<^verbatim>\<open>blocks\<close> after the last push, and the string returned.\<close>

definition buildPrompt_blocks :: "BuilderState \<Rightarrow> jsstring list" where
  "buildPrompt_blocks state =
     (let blocks = [];
          blocks = (if truthy (state Persona)
            then blocks @ [js ''Voc'' @ [0xEA] @ js '' '' @ [0xE9] @ js '' ''
                           @ template (state Persona) @ js ''.'']
            else blocks);
          blocks = (if truthy (state Objective)
            then blocks @ [js ''Tarefa principal:'' @ [0x0A] @ template (state Objective)]
            else blocks);
          blocks = (if truthy (state Audience)
            then blocks @ [js ''P'' @ [0xFA] @ js ''blico-alvo:'' @ [0x0A]
                           @ template (state Audience)]
            else blocks);
          blocks = (if truthy (state Context)
            then blocks @ [js ''Contexto:'' @ [0x0A] @ template (state Context)]
            else blocks);
          blocks = (if truthy (state Inputs) \<and> isArray (state Inputs)
                       \<and> length (items (state Inputs)) > 0
            then blocks @ [js ''Considere obrigatoriamente:'' @ [0x0A]
                           @ bullets (items (state Inputs))]
            else blocks);
          blocks = (if truthy (state Tone)
            then blocks @ [js ''Tom e estilo desejados:'' @ [0x0A] @ template (state Tone)]
            else blocks);
          blocks = (if truthy (state Format)
            then blocks @ [js ''Formato de sa'' @ [0xED] @ js ''da:'' @ [0x0A]
                           @ template (state Format)]
            else blocks);
          blocks = (if truthy (state Constraints) \<and> isArray (state Constraints)
                       \<and> length (items (state Constraints)) > 0
            then blocks @ [js ''Restri'' @ [0xE7, 0xF5] @ js ''es:'' @ [0x0A]
                           @ bullets (items (state Constraints))]
            else blocks);
          blocks = (if truthy (state Evaluation)
            then blocks @ [js ''Avalia'' @ [0xE7, 0xE3] @ js ''o de qualidade:'' @ [0x0A]
                           @ template (state Evaluation)]
            else blocks);
          blocks = blocks @ [closing]
      in blocks)"

definition buildPrompt :: "BuilderState \<Rightarrow> jsstring" where
  "buildPrompt state = join [0x0A, 0x0A] (buildPrompt_blocks state)"

section \<open>Well-formed states\<close>

text \<open>
  A state is well formed when every field of the descriptor table has an entry of the
  shape of its input kind: a sequence for a tag list, a string otherwise. The keys of a
  state are of type \<open>PromptField\<close>, so there is no other key.
\<close>

fun shape_ok :: "QuestionType \<Rightarrow> FieldValue option \<Rightarrow> bool" where
  "shape_ok t None = False"
| "shape_ok t (Some (Str s)) = (t \<noteq> QTags)"
| "shape_ok t (Some (Tags ts)) = (t = QTags)"

definition well_formed :: "BuilderState \<Rightarrow> bool" where
  "well_formed state =
     list_all (\<lambda>question. shape_ok (q_type question) (state (q_field question))) baseQuestions"

text \<open>The input kind the descriptor table gives a field.\<close>

definition is_tag_field :: "PromptField \<Rightarrow> bool" where
  "is_tag_field f =
     list_ex (\<lambda>question. q_field question = f \<and> q_type question = QTags) baseQuestions"

section \<open>The notions of the specification\<close>

text \<open>
  A value is answered, in the words of the specification, when it is a non-empty string
  or a non-empty sequence.
\<close>

fun answered_spec :: "FieldValue option \<Rightarrow> bool" where
  "answered_spec None = False"
| "answered_spec (Some (Str s)) = (s \<noteq> [])"
| "answered_spec (Some (Tags ts)) = (ts \<noteq> [])"

text \<open>The same with the string trimmed first.\<close>

fun answered_trimmed :: "FieldValue option \<Rightarrow> bool" where
  "answered_trimmed None = False"
| "answered_trimmed (Some (Str s)) = (trim s \<noteq> [])"
| "answered_trimmed (Some (Tags ts)) = (ts \<noteq> [])"

text \<open>
  The completion percentage as the specification words it: the fields of the descriptor
  table that are answered, over the fields of the table, as a rounded percentage.
\<close>

definition completion_spec :: "BuilderState \<Rightarrow> int" where
  "completion_spec state =
     Math_round (100 * of_nat (length (filter (\<lambda>question. answered_spec (state (q_field question)))
                                  baseQuestions))
                 / of_nat (length baseQuestions))"

text \<open>
  The blocks of the document as the specification lists them: the order of the fields,
  and the block of a field, whose body is the text itself or the bulleted lines.
\<close>

definition block_order :: "PromptField list" where
  "block_order =
     [Persona, Objective, Audience, Context, Inputs, Tone, Format, Constraints, Evaluation]"

fun body :: "FieldValue option \<Rightarrow> jsstring" where
  "body None = []"
| "body (Some (Str s)) = s"
| "body (Some (Tags ts)) = bullets ts"

fun block :: "PromptField \<Rightarrow> FieldValue option \<Rightarrow> jsstring" where
  "block Persona v = js ''Voc'' @ [0xEA] @ js '' '' @ [0xE9] @ js '' '' @ body v @ js ''.''"
| "block Objective v = js ''Tarefa principal:'' @ [0x0A] @ body v"
| "block Audience v = js ''P'' @ [0xFA] @ js ''blico-alvo:'' @ [0x0A] @ body v"
| "block Context v = js ''Contexto:'' @ [0x0A] @ body v"
| "block Inputs v = js ''Considere obrigatoriamente:'' @ [0x0A] @ body v"
| "block Tone v = js ''Tom e estilo desejados:'' @ [0x0A] @ body v"
| "block Format v = js ''Formato de sa'' @ [0xED] @ js ''da:'' @ [0x0A] @ body v"
| "block Constraints v = js ''Restri'' @ [0xE7, 0xF5] @ js ''es:'' @ [0x0A] @ body v"
| "block Evaluation v = js ''Avalia'' @ [0xE7, 0xE3] @ js ''o de qualidade:'' @ [0x0A] @ body v"

definition spec_blocks :: "BuilderState \<Rightarrow> jsstring list" where
  "spec_blocks state =
     map (\<lambda>f. block f (state f)) (filter (\<lambda>f. answered_spec (state f)) block_order)
     @ [closing]"

text \<open>An action fits the descriptor table when it gives a field a value of its kind.\<close>

fun action_fits :: "Action \<Rightarrow> bool" where
  "action_fits (UpdateField field v) = (\<not> is_tag_field field)"
| "action_fits (UpdateTags field tags) = is_tag_field field"
| "action_fits (Reset payload) = well_formed payload"

section \<open>Strings: splitting, joining, trimming\<close>

lemma split_not_Nil: "split sep s \<noteq> []"
  by (induction s) (auto split: list.splits)

lemma join_Cons: "ps \<noteq> [] \<Longrightarrow> join sep (p # ps) = p @ sep @ join sep ps"
  by (cases ps) simp_all

lemma join_split: "join [sep] (split sep s) = s"
proof (induction s)
  case Nil
  show ?case by simp
next
  case (Cons c cs)
  show ?case
  proof (cases "c = sep")
    case True
    with Cons show ?thesis by (simp add: join_Cons split_not_Nil)
  next
    case False
    obtain p ps where sp: "split sep cs = p # ps"
      using split_not_Nil [of sep cs] by (cases "split sep cs") auto
    have "join [sep] ((c # p) # ps) = c # join [sep] (p # ps)"
      by (cases ps) simp_all
    with False sp Cons show ?thesis by simp
  qed
qed

lemma split_no_sep: "p \<in> set (split sep s) \<Longrightarrow> sep \<notin> set p"
proof (induction s arbitrary: p)
  case Nil
  then show ?case by simp
next
  case (Cons c cs)
  then show ?case
    by (cases "split sep cs") (auto split: if_splits)
qed

lemma join_snoc: "join sep (xs @ [c]) = (if xs = [] then c else join sep xs @ sep @ c)"
  by (induction sep xs rule: join.induct) auto

lemma rev_dropWhile_takeWhile:
  "rev (dropWhile P (rev xs)) @ rev (takeWhile P (rev xs)) = xs"
proof -
  have "rev (takeWhile P (rev xs) @ dropWhile P (rev xs)) = rev (rev xs)"
    by (simp only: takeWhile_dropWhile_id)
  then show ?thesis by (simp only: rev_append rev_rev_ident)
qed

lemma trim_tail:
  "dropWhile isWhiteSpace p
     = trim p @ rev (takeWhile isWhiteSpace (rev (dropWhile isWhiteSpace p)))"
  unfolding trim_def by (simp only: rev_dropWhile_takeWhile)

lemma trim_decomp:
  "\<exists>l r. p = l @ trim p @ r \<and> list_all isWhiteSpace l \<and> list_all isWhiteSpace r"
proof -
  let ?l = "takeWhile isWhiteSpace p"
  let ?r = "rev (takeWhile isWhiteSpace (rev (dropWhile isWhiteSpace p)))"
  have "p = ?l @ dropWhile isWhiteSpace p" by simp
  also have "dropWhile isWhiteSpace p = trim p @ ?r" by (rule trim_tail)
  finally have 1: "p = ?l @ trim p @ ?r" .
  have 2: "list_all isWhiteSpace ?l"
    by (simp add: list_all_iff) (meson set_takeWhileD)
  have 3: "list_all isWhiteSpace ?r"
    by (simp add: list_all_iff) (meson set_takeWhileD)
  from 1 2 3 show ?thesis by blast
qed

lemma trim_ends:
  assumes "trim p \<noteq> []"
  shows "\<not> isWhiteSpace (hd (trim p))" and "\<not> isWhiteSpace (last (trim p))"
proof -
  define d where "d = dropWhile isWhiteSpace p"
  have t: "trim p = rev (dropWhile isWhiteSpace (rev d))"
    by (simp add: trim_def d_def)
  with assms have ne: "dropWhile isWhiteSpace (rev d) \<noteq> []" by simp
  then have "\<not> isWhiteSpace (hd (dropWhile isWhiteSpace (rev d)))"
    by (rule hd_dropWhile)
  with ne t show "\<not> isWhiteSpace (last (trim p))"
    by (simp add: last_rev)
  from ne have dne: "d \<noteq> []" by auto
  then have hd_d: "\<not> isWhiteSpace (hd d)"
    unfolding d_def by (rule hd_dropWhile)
  have "hd d = hd (trim p @ rev (takeWhile isWhiteSpace (rev d)))"
    unfolding d_def using trim_tail [of p] by simp
  also have "\<dots> = hd (trim p)"
    using assms by simp
  finally show "\<not> isWhiteSpace (hd (trim p))"
    using hd_d by simp
qed

lemma dropWhile_all: "list_all P w \<Longrightarrow> dropWhile P w = []"
  by (induction w) simp_all

lemma trim_all_ws: "list_all isWhiteSpace w \<Longrightarrow> trim w = []"
  by (simp add: trim_def dropWhile_all)

lemma trim_Nil: "trim [] = []"
  by (simp add: trim_def)

lemma Math_round_percent:
  assumes "0 < b"
  shows "Math_round ((of_nat a / of_nat b) * 100) = (200 * int a + int b) div (2 * int b)"
proof -
  have "(of_nat a / of_nat b) * 100 + 1 / 2
          = (of_int (200 * int a + int b) :: rat) / of_int (2 * int b)"
    using assms by (simp add: field_simps)
  then show ?thesis
    unfolding Math_round_def by (simp only: floor_divide_of_int_eq)
qed

section \<open>The descriptor table and well-formed states\<close>

lemma fields_of_table:
  "map q_field baseQuestions
     = [Objective, Audience, Persona, Tone, Format, Inputs, Constraints, Context, Evaluation]"
  by (simp add: baseQuestions_def)

lemma is_tag_field_iff: "is_tag_field f \<longleftrightarrow> f = Inputs \<or> f = Constraints"
  by (cases f) (simp_all add: is_tag_field_def baseQuestions_def)

lemma well_formed_unfold:
  "well_formed s \<longleftrightarrow>
     shape_ok QTextarea (s Objective) \<and> shape_ok QTextarea (s Audience)
     \<and> shape_ok QTextarea (s Persona) \<and> shape_ok QTextarea (s Tone)
     \<and> shape_ok QTextarea (s Format) \<and> shape_ok QTags (s Inputs)
     \<and> shape_ok QTags (s Constraints) \<and> shape_ok QTextarea (s Context)
     \<and> shape_ok QTextarea (s Evaluation)"
  by (simp add: well_formed_def baseQuestions_def)

lemma shape_ok_text: "shape_ok QTextarea v \<Longrightarrow> v = Some (Str (orEmpty v))"
  by (cases "(QTextarea, v)" rule: shape_ok.cases) simp_all

lemma shape_ok_tags: "shape_ok QTags v \<Longrightarrow> v = Some (Tags (items v))"
  by (cases "(QTags, v)" rule: shape_ok.cases) simp_all

lemma well_formed_text:
  assumes "well_formed s" and "\<not> is_tag_field f"
  shows "s f = Some (Str (orEmpty (s f)))"
proof -
  from assms have "shape_ok QTextarea (s f)"
    by (cases f) (simp_all add: well_formed_unfold is_tag_field_iff)
  then show ?thesis by (rule shape_ok_text)
qed

lemma well_formed_tags:
  assumes "well_formed s" and "is_tag_field f"
  shows "s f = Some (Tags (items (s f)))"
proof -
  from assms have "shape_ok QTags (s f)"
    by (cases f) (simp_all add: well_formed_unfold is_tag_field_iff)
  then show ?thesis by (rule shape_ok_tags)
qed

lemma well_formed_values:
  assumes "well_formed s"
  obtains per obj aud ctx inp ton fmt con ev where
    "s Persona = Some (Str per)" "s Objective = Some (Str obj)" "s Audience = Some (Str aud)"
    "s Context = Some (Str ctx)" "s Inputs = Some (Tags inp)" "s Tone = Some (Str ton)"
    "s Format = Some (Str fmt)" "s Constraints = Some (Tags con)" "s Evaluation = Some (Str ev)"
  using well_formed_text [OF assms, of Persona] well_formed_text [OF assms, of Objective]
      well_formed_text [OF assms, of Audience] well_formed_text [OF assms, of Context]
      well_formed_tags [OF assms, of Inputs] well_formed_text [OF assms, of Tone]
      well_formed_text [OF assms, of Format] well_formed_tags [OF assms, of Constraints]
      well_formed_text [OF assms, of Evaluation]
  by (simp add: is_tag_field_iff)

section \<open>The blocks of the document\<close>

lemma push_if: "(if c then blocks @ [b] else blocks) = blocks @ (if c then [b] else [])"
  by simp

lemma filter_Cons_if: "filter P (x # xs) = (if P x then [x] else []) @ filter P xs"
  by simp

lemma map_if_single: "map f (if c then [x] else []) = (if c then [f x] else [])"
  by simp

lemma buildPrompt_blocks_spec:
  assumes "well_formed s"
  shows "buildPrompt_blocks s = spec_blocks s"
proof -
  from assms obtain per obj aud ctx inp ton fmt con ev where v:
    "s Persona = Some (Str per)" "s Objective = Some (Str obj)" "s Audience = Some (Str aud)"
    "s Context = Some (Str ctx)" "s Inputs = Some (Tags inp)" "s Tone = Some (Str ton)"
    "s Format = Some (Str fmt)" "s Constraints = Some (Tags con)" "s Evaluation = Some (Str ev)"
    by (rule well_formed_values)
  show ?thesis
    unfolding buildPrompt_blocks_def spec_blocks_def block_order_def Let_def push_if
      filter_Cons_if map_append map_if_single v
    by (simp split del: if_split cong: if_cong)
qed

lemma closing_not_Nil: "closing \<noteq> []"
  by (simp add: closing_def js_def)

lemma buildPrompt_blocks_snoc: "\<exists>bs. buildPrompt_blocks s = bs @ [closing]"
  unfolding buildPrompt_blocks_def Let_def by blast

lemma well_formed_initialState: "well_formed initialState"
  by (simp add: well_formed_unfold initialState_def)

section \<open>Counting the answered fields\<close>

lemma code_answered:
  "(let v = x in if isArray v then length (items v) > 0 else length (trim (orEmpty v)) > 0)
     = answered_trimmed x"
  by (cases x rule: answered_trimmed.cases) (simp_all add: trim_Nil)

lemma code_unanswered:
  "(let v = x in if isArray v then length (items v) = 0 else length (trim (orEmpty v)) = 0)
     = (\<not> answered_trimmed x)"
  by (cases x rule: answered_trimmed.cases) (simp_all add: trim_Nil)

lemma length_baseQuestions: "length baseQuestions = 9"
  by (simp add: baseQuestions_def)

lemma PromptField_UNIV:
  "UNIV = set [Objective, Audience, Persona, Tone, Format, Inputs, Constraints, Context, Evaluation]"
proof -
  have "f \<in> set [Objective, Audience, Persona, Tone, Format, Inputs, Constraints, Context, Evaluation]" for f
    by (cases f) simp_all
  then show ?thesis by blast
qed

lemma count_fields:
  "length (filter (\<lambda>question. P (q_field question)) baseQuestions) = card {f. P f}"
proof -
  let ?fs = "[Objective, Audience, Persona, Tone, Format, Inputs, Constraints, Context, Evaluation]"
  have "length (filter (\<lambda>question. P (q_field question)) baseQuestions)
          = length (filter P (map q_field baseQuestions))"
    by (simp add: filter_map comp_def)
  also have "\<dots> = length (filter P ?fs)"
    by (simp only: fields_of_table)
  also have "\<dots> = card ({f. P f} \<inter> set ?fs)"
    by (rule distinct_length_filter) simp
  also have "\<dots> = card {f. P f}"
    by (simp only: PromptField_UNIV [symmetric] Int_UNIV_right)
  finally show ?thesis .
qed

lemma answerCompletion_count:
  "answerCompletion s
     = (200 * int (card {f. answered_trimmed (s f)}) + 9) div 18"
proof -
  have "answerCompletion s
          = Math_round ((of_nat (length (filter (\<lambda>question. answered_trimmed (s (q_field question)))
                                    baseQuestions))
                        / of_nat (length baseQuestions)) * 100)"
    unfolding answerCompletion_def code_answered by (simp only: Let_def)
  also have "\<dots> = Math_round ((of_nat (card {f. answered_trimmed (s f)}) / of_nat 9) * 100)"
    by (simp only: count_fields [of "\<lambda>f. answered_trimmed (s f)"] length_baseQuestions)
  also have "\<dots> = (200 * int (card {f. answered_trimmed (s f)}) + int 9) div (2 * int 9)"
    by (rule Math_round_percent) simp
  finally show ?thesis by simp
qed

lemma card_fields_le: "card {f :: PromptField. P f} \<le> 9"
proof -
  have "card {f. P f} = length (filter (\<lambda>question. P (q_field question)) baseQuestions)"
    by (simp only: count_fields)
  also have "\<dots> \<le> length baseQuestions" by (rule length_filter_le)
  finally show ?thesis by (simp only: length_baseQuestions)
qed

lemma card_PromptField: "card (UNIV :: PromptField set) = 9"
  by (simp only: PromptField_UNIV) simp

section \<open>The document: order of the blocks\<close>

text \<open>
  Claim C1. For a well-formed state the blocks pushed by \<open>buildPrompt\<close> are the blocks of
  the fields that hold a non-empty string or a non-empty sequence, in the order persona,
  objective, audience, context, inputs, tone, format, constraints, evaluation (the body of
  a tag list being its items as bulleted lines, in their order), followed by the closing
  block; the document is these blocks joined by two line feeds.
\<close>

theorem buildPrompt_block_order:
  assumes "well_formed s"
  shows "buildPrompt_blocks s = spec_blocks s
         \<and> buildPrompt s = join [0x0A, 0x0A] (spec_blocks s)"
  using assms by (simp add: buildPrompt_def buildPrompt_blocks_spec)

theorem buildPrompt_block_order_witness:
  "well_formed (initialState(Persona \<mapsto> Str (js ''x''), Inputs \<mapsto> Tags [js ''a'', js ''b'']))
   \<and> buildPrompt (initialState(Persona \<mapsto> Str (js ''x''), Inputs \<mapsto> Tags [js ''a'', js ''b'']))
       = js ''Voc'' @ [0xEA] @ js '' '' @ [0xE9] @ js '' x.'' @ [0x0A, 0x0A]
         @ js ''Considere obrigatoriamente:'' @ [0x0A] @ js ''- a'' @ [0x0A] @ js ''- b''
         @ [0x0A, 0x0A] @ closing"
proof -
  let ?st = "initialState(Persona \<mapsto> Str (js ''x''), Inputs \<mapsto> Tags [js ''a'', js ''b''])"
  have wf: "well_formed ?st"
    by (simp add: well_formed_unfold initialState_def)
  have "spec_blocks ?st
          = [js ''Voc'' @ [0xEA] @ js '' '' @ [0xE9] @ js '' x.'',
             js ''Considere obrigatoriamente:'' @ [0x0A] @ js ''- a'' @ [0x0A] @ js ''- b'',
             closing]"
    by (simp add: spec_blocks_def block_order_def initialState_def bullets_def js_def)
  with buildPrompt_block_order [OF wf] have "buildPrompt ?st
       = js ''Voc'' @ [0xEA] @ js '' '' @ [0xE9] @ js '' x.'' @ [0x0A, 0x0A]
         @ js ''Considere obrigatoriamente:'' @ [0x0A] @ js ''- a'' @ [0x0A] @ js ''- b''
         @ [0x0A, 0x0A] @ closing"
    by simp
  with wf show ?thesis by (rule conjI)
qed

section \<open>The document: the closing block\<close>

text \<open>
  Claim C3. For every state the document ends with the closing block, which is the last
  block pushed, and the document is not the empty string; for a well-formed state in
  which no field holds a non-empty string or sequence, and so for the initial state, the
  document is the closing block alone.
\<close>

theorem document_ends_with_closing:
  "suffix closing (buildPrompt s) \<and> last (buildPrompt_blocks s) = closing
   \<and> buildPrompt s \<noteq> []
   \<and> (well_formed s \<and> (\<forall>f. \<not> answered_spec (s f)) \<longrightarrow> buildPrompt s = closing)
   \<and> buildPrompt initialState = closing"
proof -
  obtain bs where bs: "buildPrompt_blocks s = bs @ [closing]"
    using buildPrompt_blocks_snoc by blast
  have 1: "suffix closing (buildPrompt s)"
    by (simp add: buildPrompt_def bs join_snoc suffix_def)
  have 2: "last (buildPrompt_blocks s) = closing"
    by (simp add: bs)
  have 3: "buildPrompt s \<noteq> []"
    by (simp add: buildPrompt_def bs join_snoc closing_not_Nil)
  have 4: "buildPrompt s' = closing" if "well_formed s'" and "\<forall>f. \<not> answered_spec (s' f)" for s'
    using that by (simp add: buildPrompt_def buildPrompt_blocks_spec spec_blocks_def)
  have 5: "buildPrompt initialState = closing"
    by (rule 4 [OF well_formed_initialState]) (simp add: initialState_def)
  from 1 2 3 4 5 show ?thesis by blast
qed

theorem document_ends_with_closing_witness:
  "well_formed initialState \<and> (\<forall>f. \<not> answered_spec (initialState f))
   \<and> buildPrompt initialState = closing"
proof -
  have e: "\<forall>f. \<not> answered_spec (initialState f)"
    by (simp add: initialState_def)
  from document_ends_with_closing [of initialState] well_formed_initialState e
  show ?thesis by blast
qed

section \<open>The completion percentage\<close>

text \<open>
  Claim C2, as amended. For every state, \<open>answerCompletion\<close> is \<open>round (100 * A / R)\<close>,
  where \<open>R = 9\<close> is the number of fields of the descriptor table and \<open>A\<close> is the number
  of fields whose value is a string that is non-empty after trimming or a non-empty
  sequence; it lies between 0 and 100, is 0 for the initial state and 100 when every
  field is answered in this sense.
\<close>

theorem completion_percent:
  "answerCompletion s
     = Math_round (100 * of_nat (card {f. answered_trimmed (s f)}) / of_nat (length baseQuestions))
   \<and> length baseQuestions = 9
   \<and> 0 \<le> answerCompletion s \<and> answerCompletion s \<le> 100
   \<and> answerCompletion initialState = 0
   \<and> ((\<forall>f. answered_trimmed (s f)) \<longrightarrow> answerCompletion s = 100)"
proof -
  let ?A = "card {f. answered_trimmed (s f)}"
  have "100 * of_nat ?A / of_nat (length baseQuestions) = ((of_nat ?A / of_nat 9) * 100 :: rat)"
    by (simp add: length_baseQuestions)
  then have "Math_round (100 * of_nat ?A / of_nat (length baseQuestions))
          = Math_round ((of_nat ?A / of_nat 9) * 100)"
    by (rule arg_cong)
  also have "\<dots> = (200 * int ?A + int 9) div (2 * int 9)"
    by (rule Math_round_percent) simp
  finally have 1: "answerCompletion s
     = Math_round (100 * of_nat ?A / of_nat (length baseQuestions))"
    by (simp add: answerCompletion_count)
  have le: "?A \<le> 9" by (rule card_fields_le)
  have 2: "0 \<le> answerCompletion s"
    by (simp add: answerCompletion_count)
  have 3: "answerCompletion s \<le> 100"
    using le by (simp add: answerCompletion_count)
  have "{f. answered_trimmed (initialState f)} = {}"
    by (auto simp: initialState_def trim_Nil)
  then have 4: "answerCompletion initialState = 0"
    by (simp add: answerCompletion_count)
  have 5: "answerCompletion s = 100" if "\<forall>f. answered_trimmed (s f)"
  proof -
    from that have "{f. answered_trimmed (s f)} = UNIV" by simp
    then show ?thesis by (simp add: answerCompletion_count card_PromptField)
  qed
  from 1 2 3 4 5 length_baseQuestions show ?thesis by blast
qed

theorem completion_percent_witness:
  "(\<forall>f. answered_trimmed
          ((\<lambda>f. if is_tag_field f then Some (Tags [js ''x'']) else Some (Str (js ''x''))) f))
   \<and> answerCompletion
         (\<lambda>f. if is_tag_field f then Some (Tags [js ''x'']) else Some (Str (js ''x''))) = 100"
proof -
  let ?st = "\<lambda>f. if is_tag_field f then Some (Tags [js ''x'']) else Some (Str (js ''x''))"
  have a: "\<forall>f. answered_trimmed (?st f)"
    by (simp add: trim_def js_def isWhiteSpace_def)
  with completion_percent [of ?st] have "answerCompletion ?st = 100"
    by blast
  with a show ?thesis by (rule conjI)
qed

text \<open>
  Claim C2 as it is stated counts a field as answered when its string is non-empty. With
  a single blank as the objective and every other field empty, one field of nine is
  answered in that sense, which gives 11, while \<open>answerCompletion\<close> is 0.
\<close>

theorem completion_counts_non_empty_counterexample:
  "well_formed (initialState(Objective \<mapsto> Str (js '' '')))
   \<and> answerCompletion (initialState(Objective \<mapsto> Str (js '' ''))) = 0
   \<and> completion_spec (initialState(Objective \<mapsto> Str (js '' ''))) = 11
   \<and> answerCompletion (initialState(Objective \<mapsto> Str (js '' '')))
       \<noteq> completion_spec (initialState(Objective \<mapsto> Str (js '' '')))"
proof -
  let ?st = "initialState(Objective \<mapsto> Str (js '' ''))"
  have wf: "well_formed ?st"
    by (simp add: well_formed_unfold initialState_def)
  have "{f. answered_trimmed (?st f)} = {}"
    by (auto simp: initialState_def trim_def js_def isWhiteSpace_def)
  then have a: "answerCompletion ?st = 0"
    by (simp add: answerCompletion_count)
  have "filter (\<lambda>question. answered_spec (?st (q_field question))) baseQuestions
          = [hd baseQuestions]"
    by (simp add: baseQuestions_def initialState_def js_def)
  then have "completion_spec ?st = Math_round ((of_nat 1 / of_nat 9) * 100)"
    by (simp add: completion_spec_def length_baseQuestions)
  also have "\<dots> = (200 * int 1 + int 9) div (2 * int 9)"
    by (rule Math_round_percent) simp
  finally have b: "completion_spec ?st = 11" by simp
  from wf a b show ?thesis by simp
qed


section \<open>The pending required questions\<close>

lemma required_questions:
  "filter (\<lambda>question. q_required question = Some True) baseQuestions
     = [hd baseQuestions, hd (tl baseQuestions)]"
  by (simp add: baseQuestions_def)

lemma pending_filter:
  "pending s = map q_title (filter (\<lambda>question. \<not> answered_trimmed (s (q_field question)))
                   (filter (\<lambda>question. q_required question = Some True) baseQuestions))"
  unfolding pending_def code_unanswered ..

text \<open>
  Claim C4. For every state, the pending list is the titles, in the order of the
  descriptor table, of the required questions whose field is unanswered (a string that is
  empty after trimming, or an empty sequence). The required questions are the objective
  and the audience; for the initial state both are pending, and when every required field
  is answered the list is empty.
\<close>

theorem pending_required:
  "pending s
     = map q_title (filter (\<lambda>question. q_required question = Some True
                              \<and> \<not> answered_trimmed (s (q_field question))) baseQuestions)
   \<and> pending s
       = (if answered_trimmed (s Objective) then [] else [js ''Objetivo central''])
         @ (if answered_trimmed (s Audience) then []
            else [js ''P'' @ [0xFA] @ js ''blico-alvo e n'' @ [0xED] @ js ''vel''])
   \<and> pending initialState
       = [js ''Objetivo central'', js ''P'' @ [0xFA] @ js ''blico-alvo e n'' @ [0xED] @ js ''vel'']
   \<and> ((\<forall>question \<in> set baseQuestions.
          q_required question = Some True \<longrightarrow> answered_trimmed (s (q_field question)))
        \<longrightarrow> pending s = [])"
proof -
  have 1: "pending s
     = map q_title (filter (\<lambda>question. q_required question = Some True
                              \<and> \<not> answered_trimmed (s (q_field question))) baseQuestions)"
    by (simp add: pending_filter conj_commute)
  have 2: "pending s'
       = (if answered_trimmed (s' Objective) then [] else [js ''Objetivo central''])
         @ (if answered_trimmed (s' Audience) then []
            else [js ''P'' @ [0xFA] @ js ''blico-alvo e n'' @ [0xED] @ js ''vel''])" for s'
    unfolding pending_filter required_questions by (simp add: baseQuestions_def)
  have 3: "pending initialState
       = [js ''Objetivo central'', js ''P'' @ [0xFA] @ js ''blico-alvo e n'' @ [0xED] @ js ''vel'']"
    unfolding 2 by (simp add: initialState_def trim_Nil)
  have 4: "pending s = []"
    if "\<forall>question \<in> set baseQuestions.
          q_required question = Some True \<longrightarrow> answered_trimmed (s (q_field question))"
    unfolding 1 using that by simp
  from 1 2 3 4 show ?thesis by blast
qed

theorem pending_required_witness:
  "answered_trimmed
     ((initialState(Objective \<mapsto> Str (js ''x''), Audience \<mapsto> Str (js ''y''))) Objective)
   \<and> answered_trimmed
       ((initialState(Objective \<mapsto> Str (js ''x''), Audience \<mapsto> Str (js ''y''))) Audience)
   \<and> pending (initialState(Objective \<mapsto> Str (js ''x''), Audience \<mapsto> Str (js ''y''))) = []"
proof -
  let ?st = "initialState(Objective \<mapsto> Str (js ''x''), Audience \<mapsto> Str (js ''y''))"
  have o: "answered_trimmed (?st Objective)" and a: "answered_trimmed (?st Audience)"
    by (simp_all add: trim_def js_def isWhiteSpace_def)
  have r: "\<forall>question \<in> set baseQuestions. q_required question = Some True \<longrightarrow>
      answered_trimmed (?st (q_field question))"
    by (simp add: baseQuestions_def trim_def js_def isWhiteSpace_def)
  with pending_required [of ?st] have "pending ?st = []"
    by blast
  with o a show ?thesis by simp
qed

section \<open>The advisory messages\<close>

lemma insights_eq:
  assumes "well_formed s"
  shows "insights s
     = (if answered_spec (s Objective) \<and> s Format = Some (Str []) then [insight_format] else [])
       @ (if s Constraints = Some (Tags []) then [insight_constraints] else [])
       @ (if s Evaluation = Some (Str []) then [insight_evaluation] else [])"
proof -
  from assms obtain per obj aud ctx inp ton fmt con ev where v:
    "s Persona = Some (Str per)" "s Objective = Some (Str obj)" "s Audience = Some (Str aud)"
    "s Context = Some (Str ctx)" "s Inputs = Some (Tags inp)" "s Tone = Some (Str ton)"
    "s Format = Some (Str fmt)" "s Constraints = Some (Tags con)" "s Evaluation = Some (Str ev)"
    by (rule well_formed_values)
  show ?thesis
    by (simp add: insights_def v)
qed

text \<open>
  Claim C5. For a well-formed state, the advisory list is made of three independent
  parts in a fixed order: the output-format message when the objective is a non-empty
  string and the format is the empty string, the constraints message when the constraints
  sequence is empty, the evaluation message when the evaluation is the empty string. Every
  subset of the three messages is the advisory list of some well-formed state.
\<close>

theorem advisories:
  "(well_formed s \<longrightarrow>
     insights s
     = (if answered_spec (s Objective) \<and> s Format = Some (Str []) then [insight_format] else [])
       @ (if s Constraints = Some (Tags []) then [insight_constraints] else [])
       @ (if s Evaluation = Some (Str []) then [insight_evaluation] else []))
   \<and> (\<forall>b1 b2 b3. \<exists>s'. well_formed s' \<and>
         insights s' = (if b1 then [insight_format] else [])
                       @ (if b2 then [insight_constraints] else [])
                       @ (if b3 then [insight_evaluation] else []))"
proof -
  have "\<exists>s'. well_formed s' \<and>
         insights s' = (if b1 then [insight_format] else [])
                       @ (if b2 then [insight_constraints] else [])
                       @ (if b3 then [insight_evaluation] else [])" for b1 b2 b3
  proof -
    let ?st = "initialState(Objective \<mapsto> Str (js ''x''),
                 Format \<mapsto> Str (if b1 then [] else js ''x''),
                 Constraints \<mapsto> Tags (if b2 then [] else [js ''x'']),
                 Evaluation \<mapsto> Str (if b3 then [] else js ''x''))"
    have wf: "well_formed ?st"
      by (simp add: well_formed_unfold initialState_def)
    have "insights ?st = (if b1 then [insight_format] else [])
                       @ (if b2 then [insight_constraints] else [])
                       @ (if b3 then [insight_evaluation] else [])"
      unfolding insights_eq [OF wf] by (simp add: js_def)
    with wf show ?thesis by blast
  qed
  then show ?thesis using insights_eq by blast
qed

theorem advisories_witness:
  "well_formed (initialState(Objective \<mapsto> Str (js ''Write a poem'')))
   \<and> insights (initialState(Objective \<mapsto> Str (js ''Write a poem'')))
       = [insight_format, insight_constraints, insight_evaluation]
   \<and> well_formed (initialState(Objective \<mapsto> Str (js ''Write a poem''),
                                Format \<mapsto> Str (js ''4 lines'')))
   \<and> insights (initialState(Objective \<mapsto> Str (js ''Write a poem''),
                             Format \<mapsto> Str (js ''4 lines'')))
       = [insight_constraints, insight_evaluation]"
proof -
  let ?s1 = "initialState(Objective \<mapsto> Str (js ''Write a poem''))"
  let ?s2 = "initialState(Objective \<mapsto> Str (js ''Write a poem''), Format \<mapsto> Str (js ''4 lines''))"
  have wf1: "well_formed ?s1" and wf2: "well_formed ?s2"
    by (simp_all add: well_formed_unfold initialState_def)
  from advisories [of ?s1] wf1 have 1: "insights ?s1 = [insight_format, insight_constraints, insight_evaluation]"
    by (simp add: initialState_def js_def)
  from advisories [of ?s2] wf2 have 2: "insights ?s2 = [insight_constraints, insight_evaluation]"
    by (simp add: initialState_def js_def)
  from wf1 1 wf2 2 show ?thesis by blast
qed


section \<open>Parsing a tag list\<close>

text \<open>
  Claim C6. For every raw string, the sequence dispatched by \<open>updateTagList\<close> is obtained
  by splitting the string at its commas (the pieces contain no comma and, joined by
  commas, give the string back), trimming each piece (what is removed at either end is
  whitespace, and a non-empty result neither starts nor ends with whitespace), and
  keeping the non-empty results in their order, duplicates included; the raw string
  \<^verbatim>\<open>a, b ,,c\<close> gives \<^verbatim>\<open>a\<close>, \<^verbatim>\<open>b\<close>, \<^verbatim>\<open>c\<close>, and \<^verbatim>\<open>a,a\<close> gives \<^verbatim>\<open>a\<close> twice.
\<close>

theorem tag_list_parsing:
  "updateTagList_values raw = filter (\<lambda>p. p \<noteq> []) (map trim (split 0x2C raw))
   \<and> join [0x2C] (split 0x2C raw) = raw
   \<and> (\<forall>p \<in> set (split 0x2C raw). 0x2C \<notin> set p)
   \<and> (\<forall>p. \<exists>l r. p = l @ trim p @ r \<and> list_all isWhiteSpace l \<and> list_all isWhiteSpace r)
   \<and> (\<forall>p. trim p \<noteq> [] \<longrightarrow> \<not> isWhiteSpace (hd (trim p)) \<and> \<not> isWhiteSpace (last (trim p)))
   \<and> subseq (updateTagList_values raw) (map trim (split 0x2C raw))
   \<and> updateTagList s f raw = s(f \<mapsto> Tags (updateTagList_values raw))
   \<and> updateTagList_values (js ''a, b ,,c'') = [js ''a'', js ''b'', js ''c'']
   \<and> updateTagList_values (js ''a,a'') = [js ''a'', js ''a'']"
proof -
  have 1: "updateTagList_values raw = filter (\<lambda>p. p \<noteq> []) (map trim (split 0x2C raw))"
    by (simp add: updateTagList_values_def)
  have 2: "join [0x2C] (split 0x2C raw) = raw"
    by (rule join_split)
  have 3: "\<forall>p \<in> set (split 0x2C raw). 0x2C \<notin> set p"
    using split_no_sep by blast
  have 4: "\<forall>p. \<exists>l r. p = l @ trim p @ r \<and> list_all isWhiteSpace l \<and> list_all isWhiteSpace r"
    using trim_decomp by blast
  have 5: "\<forall>p. trim p \<noteq> [] \<longrightarrow> \<not> isWhiteSpace (hd (trim p)) \<and> \<not> isWhiteSpace (last (trim p))"
    using trim_ends by blast
  have 6: "subseq (updateTagList_values raw) (map trim (split 0x2C raw))"
    unfolding 1 by (rule subseq_filter_left)
  have 7: "updateTagList s f raw = s(f \<mapsto> Tags (updateTagList_values raw))"
    by (simp add: updateTagList_def)
  have 8: "updateTagList_values (js ''a, b ,,c'') = [js ''a'', js ''b'', js ''c'']"
    by (simp add: updateTagList_values_def js_def trim_def isWhiteSpace_def)
  have 9: "updateTagList_values (js ''a,a'') = [js ''a'', js ''a'']"
    by (simp add: updateTagList_values_def js_def trim_def isWhiteSpace_def)
  from 1 2 3 4 5 6 7 8 9 show ?thesis by blast
qed

theorem tag_list_parsing_witness:
  "js '' b '' \<in> set (split 0x2C (js ''a, b ,,c'')) \<and> 0x2C \<notin> set (js '' b '')
   \<and> trim (js '' b '') \<noteq> [] \<and> \<not> isWhiteSpace (hd (trim (js '' b '')))
   \<and> \<not> isWhiteSpace (last (trim (js '' b '')))
   \<and> updateTagList initialState Inputs (js ''a, b ,,c'')
       = initialState(Inputs \<mapsto> Tags [js ''a'', js ''b'', js ''c''])"
proof -
  have a: "js '' b '' \<in> set (split 0x2C (js ''a, b ,,c''))"
    by (simp add: js_def)
  have b: "trim (js '' b '') \<noteq> []"
    by (simp add: js_def trim_def isWhiteSpace_def)
  from tag_list_parsing [of "js ''a, b ,,c''" initialState Inputs] a b
  show ?thesis by metis
qed


section \<open>The document: filling one field\<close>





section \<open>The reducer: reset\<close>

text \<open>
  Claim C8. Whatever the state, the reset action yields its payload; with the initial
  state as payload it restores the initial state.
\<close>

theorem reset_yields_payload:
  "builderReducer s (Reset b) = b \<and> builderReducer s (Reset initialState) = initialState"
  by simp

section \<open>The reducer: well-formed states\<close>

lemma table_fields_UNIV: "set (map q_field baseQuestions) = UNIV"
  by (simp only: fields_of_table PromptField_UNIV)

lemma update_text_well_formed:
  assumes "well_formed s" and "\<not> is_tag_field f"
  shows "well_formed (s(f \<mapsto> Str v))"
  using assms by (cases f) (simp_all add: well_formed_unfold is_tag_field_iff)

lemma update_tags_well_formed:
  assumes "well_formed s" and "is_tag_field f"
  shows "well_formed (s(f \<mapsto> Tags ts))"
  using assms by (cases f) (simp_all add: well_formed_unfold is_tag_field_iff)

lemma reducer_keys:
  assumes "dom s = UNIV" and "\<forall>b. a = Reset b \<longrightarrow> dom b = UNIV"
  shows "dom (builderReducer s a) = UNIV"
  using assms by (cases a) auto

text \<open>
  The reducer does not compare the value with the kind of the field: a string written
  to a tag-list field leaves every key in place but not the shape of that field.
\<close>

lemma reducer_kind_not_checked:
  "\<not> well_formed (builderReducer initialState (UpdateField Inputs (js ''x'')))
   \<and> dom (builderReducer initialState (UpdateField Inputs (js ''x''))) = dom initialState"
  by (auto simp: well_formed_unfold initialState_def)

text \<open>
  Claim C9. The reducer keeps the invariant of the state: when every field of the
  descriptor table has an entry in the state (and in the payload, for a reset), every
  field has an entry in the result and the set of keys is the same. When the state is
  well formed and the action gives a field a value of its kind (a string for a text
  field, a sequence for a tag list, a well-formed payload for a reset), the result is
  well formed. A set-field action gives the named field the new value and leaves the
  value of every other field as it was.
\<close>

theorem reducer_preserves_well_formed:
  "(set (map q_field baseQuestions) \<subseteq> dom s
      \<and> (\<forall>b. a = Reset b \<longrightarrow> set (map q_field baseQuestions) \<subseteq> dom b)
     \<longrightarrow> set (map q_field baseQuestions) \<subseteq> dom (builderReducer s a)
         \<and> dom (builderReducer s a) = dom s)
   \<and> (well_formed s \<and> action_fits a \<longrightarrow> well_formed (builderReducer s a))
   \<and> (\<forall>f v. a = UpdateField f v \<longrightarrow>
         builderReducer s a f = Some (Str v) \<and> (\<forall>g. g \<noteq> f \<longrightarrow> builderReducer s a g = s g))
   \<and> (\<forall>f ts. a = UpdateTags f ts \<longrightarrow>
         builderReducer s a f = Some (Tags ts) \<and> (\<forall>g. g \<noteq> f \<longrightarrow> builderReducer s a g = s g))"
proof -
  have 1: "set (map q_field baseQuestions) \<subseteq> dom s
      \<and> (\<forall>b. a = Reset b \<longrightarrow> set (map q_field baseQuestions) \<subseteq> dom b)
     \<longrightarrow> set (map q_field baseQuestions) \<subseteq> dom (builderReducer s a)
         \<and> dom (builderReducer s a) = dom s"
  proof
    assume h: "set (map q_field baseQuestions) \<subseteq> dom s
      \<and> (\<forall>b. a = Reset b \<longrightarrow> set (map q_field baseQuestions) \<subseteq> dom b)"
    then have ds: "dom s = UNIV"
      by (simp only: table_fields_UNIV) blast
    from h have "\<forall>b. a = Reset b \<longrightarrow> dom b = UNIV"
      by (simp only: table_fields_UNIV) blast
    with ds have "dom (builderReducer s a) = UNIV"
      by (rule reducer_keys)
    with ds show "set (map q_field baseQuestions) \<subseteq> dom (builderReducer s a)
         \<and> dom (builderReducer s a) = dom s"
      by simp
  qed
  have 2: "well_formed s \<and> action_fits a \<longrightarrow> well_formed (builderReducer s a)"
    by (cases a) (simp_all add: update_text_well_formed update_tags_well_formed)
  have 3: "\<forall>f v. a = UpdateField f v \<longrightarrow>
         builderReducer s a f = Some (Str v) \<and> (\<forall>g. g \<noteq> f \<longrightarrow> builderReducer s a g = s g)"
    by simp
  have 4: "\<forall>f ts. a = UpdateTags f ts \<longrightarrow>
         builderReducer s a f = Some (Tags ts) \<and> (\<forall>g. g \<noteq> f \<longrightarrow> builderReducer s a g = s g)"
    by simp
  show ?thesis
    by (rule conjI [OF 1 conjI [OF 2 conjI [OF 3 4]]])
qed

theorem reducer_preserves_well_formed_witness:
  "set (map q_field baseQuestions) \<subseteq> dom initialState
   \<and> well_formed initialState \<and> action_fits (UpdateField Objective (js ''x''))
   \<and> well_formed (builderReducer initialState (UpdateField Objective (js ''x'')))
   \<and> dom (builderReducer initialState (UpdateField Objective (js ''x''))) = dom initialState
   \<and> builderReducer initialState (UpdateField Objective (js ''x'')) Objective = Some (Str (js ''x''))
   \<and> builderReducer initialState (UpdateField Objective (js ''x'')) Audience = initialState Audience"
proof -
  let ?a = "UpdateField Objective (js ''x'')"
  note t = reducer_preserves_well_formed [of initialState ?a]
  have k: "set (map q_field baseQuestions) \<subseteq> dom initialState"
    by (simp add: fields_of_table initialState_def)
  have fits: "action_fits ?a"
    by (simp add: is_tag_field_iff)
  have r: "\<forall>b. ?a = Reset b \<longrightarrow> set (map q_field baseQuestions) \<subseteq> dom b"
    by simp
  have a: "set (map q_field baseQuestions) \<subseteq> dom (builderReducer initialState ?a)
         \<and> dom (builderReducer initialState ?a) = dom initialState"
    by (rule mp [OF conjunct1 [OF t] conjI [OF k r]])
  have b: "well_formed (builderReducer initialState ?a)"
    by (rule mp [OF conjunct1 [OF conjunct2 [OF t]] conjI [OF well_formed_initialState fits]])
  have "\<forall>f v. ?a = UpdateField f v \<longrightarrow>
         builderReducer initialState ?a f = Some (Str v)
         \<and> (\<forall>g. g \<noteq> f \<longrightarrow> builderReducer initialState ?a g = initialState g)"
    by (rule conjunct1 [OF conjunct2 [OF conjunct2 [OF t]]])
  then have c: "builderReducer initialState ?a Objective = Some (Str (js ''x''))
         \<and> (\<forall>g. g \<noteq> Objective \<longrightarrow> builderReducer initialState ?a g = initialState g)"
    by simp
  then have d: "builderReducer initialState ?a Audience = initialState Audience"
    by simp
  from k well_formed_initialState fits a b c d show ?thesis
    by simp
qed
section \<open>A text field that holds only whitespace\<close>

lemma blank_same_answers:
  assumes "s f = Some (Str w)" and "list_all isWhiteSpace w"
  shows "answered_trimmed ((s(f \<mapsto> Str [])) g) = answered_trimmed (s g)"
  using assms by (simp add: trim_all_ws trim_Nil)

lemma join_contains:
  "x \<in> set xs \<Longrightarrow> \<exists>pre post. join sep xs = pre @ x @ post"
proof (induction sep xs rule: join.induct)
  case (1 sep)
  then show ?case by simp
next
  case (2 sep y)
  then have "join sep [y] = [] @ x @ []" by simp
  then show ?case by blast
next
  case (3 sep y z zs)
  show ?case
  proof (cases "x = y")
    case True
    then have "join sep (y # z # zs) = [] @ x @ (sep @ join sep (z # zs))" by simp
    then show ?thesis by blast
  next
    case False
    with 3 obtain pre post where "join sep (z # zs) = pre @ x @ post" by auto
    then have "join sep (y # z # zs) = (y @ sep @ pre) @ x @ post" by simp
    then show ?thesis by blast
  qed
qed

text \<open>
  Claim C10. In a well-formed state, let a text field hold a non-empty string made of
  whitespace only. The field is not answered for the completion count and for the
  pending list: both are what they would be with the field empty, and the title of the
  field is pending when its question is required. Yet the block of the field is one of
  the blocks that \<open>buildPrompt\<close> joins, and the document it returns contains that block.
\<close>

theorem blank_text_field:
  assumes "well_formed s" and "s f = Some (Str w)" and "w \<noteq> []" and "list_all isWhiteSpace w"
  shows "\<not> answered_trimmed (s f)
         \<and> answerCompletion s = answerCompletion (s(f \<mapsto> Str []))
         \<and> pending s = pending (s(f \<mapsto> Str []))
         \<and> (\<forall>question \<in> set baseQuestions.
               q_field question = f \<and> q_required question = Some True
                 \<longrightarrow> q_title question \<in> set (pending s))
         \<and> block f (s f) \<in> set (buildPrompt_blocks s)
         \<and> buildPrompt s = join [0x0A, 0x0A] (buildPrompt_blocks s)
         \<and> (\<exists>pre post. buildPrompt s = pre @ block f (s f) @ post)"
proof -
  have 1: "\<not> answered_trimmed (s f)"
    using assms(2,4) by (simp add: trim_all_ws)
  have same: "(\<lambda>g. answered_trimmed ((s(f \<mapsto> Str [])) g)) = (\<lambda>g. answered_trimmed (s g))"
    using blank_same_answers [of s f w, OF assms(2,4)] by (intro ext)
  have 2: "answerCompletion s = answerCompletion (s(f \<mapsto> Str []))"
    unfolding answerCompletion_count same ..
  have 3: "pending s = pending (s(f \<mapsto> Str []))"
    by (simp only: pending_filter blank_same_answers [of s f w, OF assms(2,4)])
  have 4: "\<forall>question \<in> set baseQuestions.
               q_field question = f \<and> q_required question = Some True
                 \<longrightarrow> q_title question \<in> set (pending s)"
    unfolding pending_filter using 1 by auto
  have "f \<in> set block_order"
    by (cases f) (simp_all add: block_order_def)
  moreover have "answered_spec (s f)"
    using assms(2,3) by simp
  ultimately have 5: "block f (s f) \<in> set (buildPrompt_blocks s)"
    by (simp add: buildPrompt_blocks_spec [OF assms(1)] spec_blocks_def)
  have 6: "buildPrompt s = join [0x0A, 0x0A] (buildPrompt_blocks s)"
    by (simp only: buildPrompt_def)
  have 7: "\<exists>pre post. buildPrompt s = pre @ block f (s f) @ post"
    unfolding 6 using 5 by (rule join_contains)
  show ?thesis
    by (rule conjI [OF 1 conjI [OF 2 conjI [OF 3 conjI [OF 4 conjI [OF 5 conjI [OF 6 7]]]]]])
qed

theorem blank_text_field_witness:
  "well_formed (initialState(Objective \<mapsto> Str (js '' '')))
   \<and> (initialState(Objective \<mapsto> Str (js '' ''))) Objective = Some (Str (js '' ''))
   \<and> js '' '' \<noteq> [] \<and> list_all isWhiteSpace (js '' '')
   \<and> answerCompletion (initialState(Objective \<mapsto> Str (js '' ''))) = 0
   \<and> js ''Objetivo central'' \<in> set (pending (initialState(Objective \<mapsto> Str (js '' ''))))
   \<and> js ''Tarefa principal:'' @ [0x0A] @ js '' ''
       \<in> set (buildPrompt_blocks (initialState(Objective \<mapsto> Str (js '' ''))))
   \<and> buildPrompt (initialState(Objective \<mapsto> Str (js '' '')))
       = js ''Tarefa principal:'' @ [0x0A] @ js '' '' @ [0x0A, 0x0A] @ closing"
proof -
  let ?st = "initialState(Objective \<mapsto> Str (js '' ''))"
  have wf: "well_formed ?st"
    by (simp add: well_formed_unfold initialState_def)
  have v: "?st Objective = Some (Str (js '' ''))"
    by simp
  have ne: "js '' '' \<noteq> []"
    by (simp add: js_def)
  have ws: "list_all isWhiteSpace (js '' '')"
    by (simp add: js_def isWhiteSpace_def)
  note t = blank_text_field [OF wf v ne ws]
  have e: "?st(Objective \<mapsto> Str []) = initialState"
    by (rule ext) (simp add: initialState_def)
  have "answerCompletion ?st = answerCompletion (?st(Objective \<mapsto> Str []))"
    by (rule conjunct1 [OF conjunct2 [OF t]])
  then have a: "answerCompletion ?st = answerCompletion initialState"
    by (simp only: e)
  have "{f. answered_trimmed (initialState f)} = {}"
    by (auto simp: initialState_def trim_Nil)
  then have "answerCompletion initialState = 0"
    by (simp add: answerCompletion_count)
  with a have b: "answerCompletion ?st = 0"
    by (simp only:)
  have q: "hd baseQuestions \<in> set baseQuestions"
    by (simp add: baseQuestions_def)
  have "\<forall>question \<in> set baseQuestions.
               q_field question = Objective \<and> q_required question = Some True
                 \<longrightarrow> q_title question \<in> set (pending ?st)"
    by (rule conjunct1 [OF conjunct2 [OF conjunct2 [OF conjunct2 [OF t]]]])
  from this q have "q_field (hd baseQuestions) = Objective \<and> q_required (hd baseQuestions) = Some True
                 \<longrightarrow> q_title (hd baseQuestions) \<in> set (pending ?st)"
    by (rule bspec)
  then have c: "js ''Objetivo central'' \<in> set (pending ?st)"
    by (simp add: baseQuestions_def del: fun_upd_apply)
  have "block Objective (?st Objective) \<in> set (buildPrompt_blocks ?st)"
    by (rule conjunct1 [OF conjunct2 [OF conjunct2 [OF conjunct2 [OF conjunct2 [OF t]]]]])
  then have d: "js ''Tarefa principal:'' @ [0x0A] @ js '' '' \<in> set (buildPrompt_blocks ?st)"
    by (simp only: v block.simps body.simps)
  have j: "buildPrompt ?st = join [0x0A, 0x0A] (buildPrompt_blocks ?st)"
    by (rule conjunct1 [OF conjunct2 [OF conjunct2 [OF conjunct2 [OF conjunct2 [OF conjunct2 [OF t]]]]]])
  have "spec_blocks ?st = [js ''Tarefa principal:'' @ [0x0A] @ js '' '', closing]"
    by (simp add: spec_blocks_def block_order_def initialState_def js_def)
  then have "buildPrompt_blocks ?st = [js ''Tarefa principal:'' @ [0x0A] @ js '' '', closing]"
    by (simp only: buildPrompt_blocks_spec [OF wf])
  with j have g: "buildPrompt ?st
       = js ''Tarefa principal:'' @ [0x0A] @ js '' '' @ [0x0A, 0x0A] @ closing"
    by simp
  show ?thesis
    by (rule conjI [OF wf conjI [OF v conjI [OF ne conjI [OF ws
         conjI [OF b conjI [OF c conjI [OF d g]]]]]]])
qed

end
